theory Spec2Isabelle
  imports Complex_Main "HOL-Library.Word"
begin

chapter \<open>The model\<close>

section \<open>Task runtime cache of the job manager (jobmgr/cached/task.go)\<close>

subsection \<open>Data\<close>

text \<open>
  The task states of \<open>pbtask.TaskState\<close>. The generated enum is not among the sources;
  the constructors are the states that the sources and the specification name.
  \<open>UNKNOWN\<close> is the zero value, which the nil-safe getter \<open>GetState\<close> returns for a nil
  runtime.
\<close>

datatype TaskState =
    UNKNOWN | INITIALIZED | PENDING | READY | PLACING | PLACED | LAUNCHING | LAUNCHED
  | STARTING | RUNNING | SUCCEEDED | FAILED | LOST | PREEMPTING | KILLING | KILLED
  | RESERVED

datatype error =
    InvalidArgument string
  | NotFound string
  | StoreError string
  | Panic string

text \<open>
  \<open>peloton.ChangeLog\<close>. A runtime refers to its change log through a pointer, and two
  runtime structs can share one change log, so change logs live in a heap and a runtime
  holds an address.
\<close>

type_synonym addr = nat

record ChangeLog =
  Version :: "64 word"
  CreatedAt :: "64 word"
  UpdatedAt :: "64 word"

text \<open>
  \<open>pbtask.RuntimeInfo\<close>, with the fields that the sources name. A \<open>*mesos.TaskID\<close> is
  \<open>None\<close> for nil and \<open>Some v\<close> for a task id with value \<open>v\<close>. The type parameter is
  what \<open>Revision\<close> holds: an address for a runtime in memory, the change log itself for a
  runtime written to the task store.
\<close>

record 'rev RuntimeInfo =
  State :: TaskState
  GoalState :: TaskState
  MesosTaskId :: "string option"
  PrevMesosTaskId :: "string option"
  DesiredMesosTaskId :: "string option"
  ConfigVersion :: "64 word"
  Message :: string
  Reason :: string
  Revision :: "'rev option"

text \<open>The nil-safe getters that protobuf generates.\<close>

definition GetState :: "'rev RuntimeInfo option \<Rightarrow> TaskState" where
  "GetState r = (case r of None \<Rightarrow> UNKNOWN | Some x \<Rightarrow> State x)"

definition GetMesosTaskId :: "'rev RuntimeInfo option \<Rightarrow> string option" where
  "GetMesosTaskId r = (case r of None \<Rightarrow> None | Some x \<Rightarrow> MesosTaskId x)"

definition GetDesiredMesosTaskId :: "'rev RuntimeInfo option \<Rightarrow> string option" where
  "GetDesiredMesosTaskId r = (case r of None \<Rightarrow> None | Some x \<Rightarrow> DesiredMesosTaskId x)"

definition GetRevision :: "'rev RuntimeInfo option \<Rightarrow> 'rev option" where
  "GetRevision r = (case r of None \<Rightarrow> None | Some x \<Rightarrow> Revision x)"

definition GetValue :: "string option \<Rightarrow> string" where
  "GetValue i = (case i of None \<Rightarrow> [] | Some v \<Rightarrow> v)"

subsection \<open>State ownership\<close>

definition resMgrOwnedTaskStates :: "TaskState set" where
  "resMgrOwnedTaskStates = {PENDING, READY, PLACING, PLACED, LAUNCHING, PREEMPTING}"

definition mesosOwnedTaskStates :: "TaskState set" where
  "mesosOwnedTaskStates = {STARTING, RUNNING, SUCCEEDED, FAILED, LOST, KILLED}"

definition IsResMgrOwnedState :: "TaskState \<Rightarrow> bool" where
  "IsResMgrOwnedState state = (state \<in> resMgrOwnedTaskStates)"

definition IsMesosOwnedState :: "TaskState \<Rightarrow> bool" where
  "IsMesosOwnedState state = (state \<in> mesosOwnedTaskStates)"

subsection \<open>Validation of a runtime update\<close>

text \<open>\<open>len(uuid.New())\<close>: the textual form of a UUID has 36 characters.\<close>

definition uuidLength :: nat where
  "uuidLength = 36"

text \<open>
  \<open>util.ParseRunID\<close> and \<open>util.IsPelotonStateTerminal\<close> are not among the sources, so the
  functions that call them take them as parameters.
\<close>

definition validateMesosTaskID ::
  "(string \<Rightarrow> error + 32 word) \<Rightarrow> string \<Rightarrow> string \<Rightarrow> bool" where
  "validateMesosTaskID ParseRunID mesosTaskID prevMesosTaskID =
     (if length mesosTaskID > 2 * uuidLength \<and> length prevMesosTaskID > 2 * uuidLength
      then True
      else (case ParseRunID mesosTaskID of
              Inl err \<Rightarrow> False
            | Inr newRunID \<Rightarrow>
                (case ParseRunID prevMesosTaskID of
                   Inl err \<Rightarrow> length prevMesosTaskID > 2 * uuidLength
                 | Inr currentRunID \<Rightarrow> newRunID \<ge> currentRunID)))"

definition validateState ::
  "(TaskState \<Rightarrow> bool) \<Rightarrow> (string \<Rightarrow> error + 32 word) \<Rightarrow>
   'rev RuntimeInfo option \<Rightarrow> 'rev RuntimeInfo option \<Rightarrow> bool" where
  "validateState IsPelotonStateTerminal ParseRunID currentRuntime newRuntime =
     (if newRuntime = None then False
      else if GetMesosTaskId newRuntime \<noteq> None \<and>
              GetValue (GetMesosTaskId currentRuntime) \<noteq> GetValue (GetMesosTaskId newRuntime)
      then
        (if \<not> validateMesosTaskID ParseRunID
                (GetValue (GetMesosTaskId newRuntime))
                (GetValue (GetMesosTaskId currentRuntime))
         then False
         else if GetState newRuntime = INITIALIZED then True
         else False)
      else if GetDesiredMesosTaskId newRuntime \<noteq> None \<and>
              \<not> validateMesosTaskID ParseRunID
                  (GetValue (GetDesiredMesosTaskId newRuntime))
                  (GetValue (GetDesiredMesosTaskId currentRuntime))
      then False
      else if GetState newRuntime = GetState currentRuntime then True
      else if IsPelotonStateTerminal (GetState currentRuntime) then False
      else if IsMesosOwnedState (GetState newRuntime) \<and>
              (IsMesosOwnedState (GetState currentRuntime) \<or>
               IsResMgrOwnedState (GetState currentRuntime))
      then True
      else if IsMesosOwnedState (GetState newRuntime) \<and>
              (GetState currentRuntime = INITIALIZED \<or> GetState currentRuntime = LAUNCHED)
      then True
      else if IsMesosOwnedState (GetState newRuntime) \<and>
              IsPelotonStateTerminal (GetState newRuntime) \<and>
              GetState currentRuntime = KILLING
      then True
      else if IsResMgrOwnedState (GetState newRuntime) \<and>
              IsResMgrOwnedState (GetState currentRuntime)
      then True
      else if IsResMgrOwnedState (GetState newRuntime) \<and>
              GetState currentRuntime = INITIALIZED
      then True
      else if GetState newRuntime = LAUNCHED \<and> IsResMgrOwnedState (GetState currentRuntime)
      then True
      else if GetState newRuntime = LAUNCHED \<and> GetState currentRuntime = INITIALIZED
      then True
      else if GetState newRuntime = KILLING then True
      else False)"

subsection \<open>The cached task and the task store\<close>

text \<open>
  The state that the methods of \<open>task\<close> read and write: the cached runtime \<open>t.runtime\<close>,
  the time of the last update, the heap of change logs, and the row of this task in the
  task store. The store keeps a serialised runtime, so its \<open>Revision\<close> is a change log,
  not an address.
\<close>

record system =
  runtime :: "addr RuntimeInfo option"
  lastRuntimeUpdateTime :: "64 word"
  heap :: "addr \<rightharpoonup> ChangeLog"
  nextAddr :: addr
  db :: "ChangeLog RuntimeInfo option"

text \<open>
  What a call meets outside the task: the outcome of \<open>cachedJob.GetConfig\<close> (\<open>None\<close>
  when the job is not in the cache), the failures of the task store, and the clock.
\<close>

record callenv =
  jobConfig :: "(error + nat) option"
  readErr :: "error option"
  writeErr :: "error option"
  now :: "64 word"

definition withRevision :: "'a RuntimeInfo \<Rightarrow> 'b option \<Rightarrow> 'b RuntimeInfo" where
  "withRevision r v =
     \<lparr>State = State r, GoalState = GoalState r, MesosTaskId = MesosTaskId r,
      PrevMesosTaskId = PrevMesosTaskId r, DesiredMesosTaskId = DesiredMesosTaskId r,
      ConfigVersion = ConfigVersion r, Message = Message r, Reason = Reason r,
      Revision = v\<rparr>"

text \<open>
  \<open>taskStore.GetTaskRuntime\<close>: a failed read, a missing row, or a fresh runtime whose
  change log is a new object. \<open>taskStore.UpdateTaskRuntime\<close> writes the runtime with the
  contents of its change log; a failed write leaves the row as it was.
\<close>

definition GetTaskRuntime :: "callenv \<Rightarrow> system \<Rightarrow> error + (addr RuntimeInfo \<times> system)" where
  "GetTaskRuntime env s =
     (case readErr env of
        Some err \<Rightarrow> Inl err
      | None \<Rightarrow>
          (case db s of
             None \<Rightarrow> Inl (NotFound ''task runtime'')
           | Some row \<Rightarrow>
               (case Revision row of
                  None \<Rightarrow> Inr (withRevision row None, s)
                | Some cl \<Rightarrow>
                    Inr (withRevision row (Some (nextAddr s)),
                         s\<lparr>heap := (heap s)(nextAddr s \<mapsto> cl),
                           nextAddr := Suc (nextAddr s)\<rparr>))))"

definition UpdateTaskRuntime :: "callenv \<Rightarrow> addr RuntimeInfo \<Rightarrow> system \<Rightarrow> error + system" where
  "UpdateTaskRuntime env r s =
     (case writeErr env of
        Some err \<Rightarrow> Inl err
      | None \<Rightarrow>
          Inr (s\<lparr>db := Some (withRevision r
                 (case Revision r of None \<Rightarrow> None | Some a \<Rightarrow> heap s a))\<rparr>))"

definition GetVersion :: "(addr \<rightharpoonup> ChangeLog) \<Rightarrow> addr option \<Rightarrow> 64 word" where
  "GetVersion h v =
     (case v of
        None \<Rightarrow> 0
      | Some a \<Rightarrow> (case h a of None \<Rightarrow> 0 | Some cl \<Rightarrow> Version cl))"

text \<open>The revision version of the cached runtime, as \<open>GetRevision().GetVersion()\<close> reads it.\<close>

definition cachedVersion :: "system \<Rightarrow> 64 word" where
  "cachedVersion s = GetVersion (heap s) (GetRevision (runtime s))"

subsection \<open>The methods\<close>

text \<open>
  \<open>updateRevision\<close> works on \<open>t.runtime\<close>: a nil revision is replaced by a new change
  log, then the version of the change log is bumped in place. Dereferencing a nil
  runtime panics; Go has no dangling pointers, so a revision without a change log in the
  heap is treated the same way.
\<close>

definition updateRevision :: "callenv \<Rightarrow> system \<Rightarrow> error + system" where
  "updateRevision env s =
     (case runtime s of
        None \<Rightarrow> Inl (Panic ''nil runtime'')
      | Some r \<Rightarrow>
          (let s1 = (case Revision r of
                       None \<Rightarrow>
                         s\<lparr>runtime := Some (r\<lparr>Revision := Some (nextAddr s)\<rparr>),
                           heap := (heap s)(nextAddr s \<mapsto>
                                     \<lparr>Version = 0, CreatedAt = now env, UpdatedAt = 0\<rparr>),
                           nextAddr := Suc (nextAddr s)\<rparr>
                     | Some a \<Rightarrow> s)
           in (case GetRevision (runtime s1) of
                 None \<Rightarrow> Inl (Panic ''nil revision'')
               | Some a \<Rightarrow>
                   (case heap s1 a of
                      None \<Rightarrow> Inl (Panic ''dangling revision'')
                    | Some cl \<Rightarrow>
                        Inr (s1\<lparr>heap := (heap s1)(a \<mapsto>
                                   cl\<lparr>Version := Version cl + 1,
                                      UpdatedAt := now env\<rparr>)\<rparr>)))))"

text \<open>\<open>jobmgrcommon.RevisionField\<close>, the name of the revision field of a runtime.\<close>

definition RevisionField :: string where
  "RevisionField = ''Revision''"

text \<open>
  \<open>PatchRuntime\<close>. A diff maps field names to values; \<open>patch\<close>, which applies a diff to
  a copy of the runtime, is not among the sources and is a parameter. The result is
  the returned error (\<open>None\<close> for nil) and the state after the call.
\<close>

definition PatchRuntime ::
  "(TaskState \<Rightarrow> bool) \<Rightarrow> (string \<Rightarrow> error + 32 word) \<Rightarrow>
   (addr RuntimeInfo \<Rightarrow> (string \<rightharpoonup> 'v) \<Rightarrow> error + addr RuntimeInfo) \<Rightarrow>
   callenv \<Rightarrow> (string \<rightharpoonup> 'v) option \<Rightarrow> system \<Rightarrow> error option \<times> system" where
  "PatchRuntime IsPelotonStateTerminal ParseRunID patch env diff s =
     (case diff of
        None \<Rightarrow> (Some (InvalidArgument ''unexpected nil diff''), s)
      | Some d \<Rightarrow>
          if d RevisionField \<noteq> None
          then (Some (InvalidArgument ''unexpected Revision field in diff''), s)
          else
            (case jobConfig env of
               Some (Inl err) \<Rightarrow> (Some err, s)
             | _ \<Rightarrow>
                 (case (case runtime s of
                          None \<Rightarrow>
                            (case GetTaskRuntime env s of
                               Inl err \<Rightarrow> Inl err
                             | Inr (r, s') \<Rightarrow> Inr (r, s'\<lparr>runtime := Some r\<rparr>))
                        | Some r \<Rightarrow> Inr (r, s)) of
                    Inl err \<Rightarrow> (Some err, s)
                  | Inr (cur, s1) \<Rightarrow>
                      (case patch cur d of
                         Inl err \<Rightarrow> (Some err, s1)
                       | Inr newRuntime \<Rightarrow>
                           if \<not> validateState IsPelotonStateTerminal ParseRunID
                                  (runtime s1) (Some newRuntime)
                           then (None, s1)
                           else
                             (case updateRevision env s1 of
                                Inl err \<Rightarrow> (Some err, s1)
                              | Inr s2 \<Rightarrow>
                                  (case UpdateTaskRuntime env newRuntime s2 of
                                     Inl err \<Rightarrow> (Some err, s2\<lparr>runtime := None\<rparr>)
                                   | Inr s3 \<Rightarrow>
                                       (None, s3\<lparr>runtime := Some newRuntime,
                                                 lastRuntimeUpdateTime := now env\<rparr>)))))))"

definition ReplaceRuntime ::
  "addr RuntimeInfo option \<Rightarrow> bool \<Rightarrow> system \<Rightarrow> error option \<times> system" where
  "ReplaceRuntime rt forceReplace s =
     (if rt = None \<or> GetRevision rt = None
      then (Some (InvalidArgument
                    ''ReplaceRuntime expects a non-nil runtime with non-nil Revision''), s)
      else if forceReplace \<or> runtime s = None \<or>
              GetVersion (heap s) (GetRevision rt) >
                GetVersion (heap s) (GetRevision (runtime s))
      then (None, s\<lparr>runtime := rt\<rparr>)
      else (None, s))"

definition GetRunTime :: "callenv \<Rightarrow> system \<Rightarrow> (error + addr RuntimeInfo) \<times> system" where
  "GetRunTime env s =
     (case runtime s of
        None \<Rightarrow>
          (case GetTaskRuntime env s of
             Inl err \<Rightarrow> (Inl err, s)
           | Inr (r, s') \<Rightarrow> (Inr r, s'\<lparr>runtime := Some r\<rparr>))
      | Some r \<Rightarrow> (Inr r, s))"

subsection \<open>The helpers that are not among the sources\<close>

text \<open>
  Modelled from the spec: \<open>util.ParseRunID\<close> is missing. A mesos task id is
  \<open><job id>-<instance>-<run id>\<close> (the tests build it with the format \<open>%s-%d-%d\<close>), and
  the run id is the decimal number after the last \<open>-\<close>, which has to fit 32 bits. The
  theorems below hold for every parser; this one evaluates the examples.
\<close>

fun parseUint :: "string \<Rightarrow> nat \<Rightarrow> nat option" where
  "parseUint [] acc = Some acc"
| "parseUint (c # cs) acc =
     (if 48 \<le> (of_char c :: nat) \<and> (of_char c :: nat) \<le> 57
      then parseUint cs (acc * 10 + (of_char c - 48))
      else None)"

definition ParseRunID :: "string \<Rightarrow> error + 32 word" where
  "ParseRunID mesosTaskID =
     (let seg = rev (takeWhile (\<lambda>c. c \<noteq> CHR ''-'') (rev mesosTaskID)) in
      if seg = [] then Inl (InvalidArgument ''unable to parse mesos task id'')
      else (case parseUint seg 0 of
              None \<Rightarrow> Inl (InvalidArgument ''unable to parse mesos task id'')
            | Some n \<Rightarrow>
                if n < 2 ^ 32 then Inr (of_nat n)
                else Inl (InvalidArgument ''unable to parse mesos task id'')))"

text \<open>
  Modelled from the spec: \<open>util.IsPelotonStateTerminal\<close> is missing. The terminal states
  of section 4.3 are SUCCEEDED, FAILED and KILLED. The theorems below hold for every
  such predicate; this one evaluates the examples.
\<close>

definition IsPelotonStateTerminal :: "TaskState \<Rightarrow> bool" where
  "IsPelotonStateTerminal state = (state \<in> {SUCCEEDED, FAILED, KILLED})"

subsection \<open>The transition graph of the specification\<close>




subsection \<open>Example values\<close>

text \<open>
  A runtime, a cached task holding it at a given state and revision version, a call
  environment without failures, and a patch function that sets the \<open>State\<close> field.
  They are the inputs at which the theorems are evaluated.
\<close>

definition exampleRuntime :: "addr RuntimeInfo" where
  "exampleRuntime =
     \<lparr>State = RUNNING, GoalState = SUCCEEDED, MesosTaskId = Some ''job-0-1'',
      PrevMesosTaskId = None, DesiredMesosTaskId = Some ''job-0-1'',
      ConfigVersion = 0, Message = [], Reason = [], Revision = Some 0\<rparr>"

definition exampleSystem :: "TaskState \<Rightarrow> 64 word \<Rightarrow> system" where
  "exampleSystem st v =
     \<lparr>runtime = Some (exampleRuntime\<lparr>State := st\<rparr>), lastRuntimeUpdateTime = 0,
      heap = [0 \<mapsto> \<lparr>Version = v, CreatedAt = 0, UpdatedAt = 0\<rparr>,
              1 \<mapsto> \<lparr>Version = 3, CreatedAt = 0, UpdatedAt = 0\<rparr>],
      nextAddr = 2, db = None\<rparr>"



definition exampleEnv :: callenv where
  "exampleEnv = \<lparr>jobConfig = None, readErr = None, writeErr = None, now = 99\<rparr>"


definition patchState ::
  "addr RuntimeInfo \<Rightarrow> (string \<rightharpoonup> TaskState) \<Rightarrow> error + addr RuntimeInfo" where
  "patchState r d = (case d ''State'' of None \<Rightarrow> Inr r | Some st \<Rightarrow> Inr (r\<lparr>State := st\<rparr>))"

text \<open>
  Two mesos task ids of the older format \<open><job id>-<instance>-<uuid>\<close>, 75 characters
  each, whose last group happens to be decimal.
\<close>

definition legacyOld :: string where
  "legacyOld = ''6a8b9c1e-1111-4222-8333-444444444444-0-7f3e2d1c-aaaa-4bbb-8ccc-000000000005''"

definition legacyNew :: string where
  "legacyNew = ''6a8b9c1e-1111-4222-8333-444444444444-0-7f3e2d1c-aaaa-4bbb-8ccc-000000000003''"

section \<open>Resource pool tree of the resource manager (resmgr/respool)\<close>

text \<open>
  Modelled from the spec: the resource pool tree (\<open>tree.Upsert\<close>, \<open>ResPool.EnqueueGang\<close>)
  is missing from the sources; only its test suite \<open>restree_test.go\<close> is there. The model
  follows sections 3, 4.1, 6 and 7 of the specification, with the names and the values
  of the test suite. Resource quantities, floating-point numbers in the program, are
  rational numbers here.
\<close>

subsection \<open>Data\<close>

record ResourceConfig =
  Kind :: string
  Reservation :: rat
  Limit :: rat
  Share :: rat

datatype SchedulingPolicy = UnknownPolicy | PriorityFIFO

record ResourcePoolConfig =
  Name :: string
  Parent :: "string option"
  Resources :: "ResourceConfig list"
  Policy :: SchedulingPolicy

record RmTask =
  TaskName :: string
  Priority :: nat
  JobId :: string
  TaskId :: string

type_synonym Gang = "RmTask list"

text \<open>
  A pool of the arena: its identifier, its configuration (which names the parent), its
  pending queue, its entitlement and its allocation per resource kind. The tree is the
  list of its pools; children refer to their parent by identifier, and the children of
  a pool are the pools that name it as parent, in the order of the arena.
\<close>

record ResPool =
  poolID :: string
  poolConfig :: ResourcePoolConfig
  pendingQueue :: "Gang list"
  entitlement :: "string \<Rightarrow> rat"
  allocation :: "string \<Rightarrow> rat"

type_synonym Tree = "ResPool list"

datatype respoolError =
    NOT_A_LEAF string
  | POOL_NOT_FOUND string
  | INVALID_CONFIG string

definition resourceKinds :: "string list" where
  "resourceKinds = [''cpu'', ''memory'', ''disk'', ''gpu'']"

definition lookupPool :: "Tree \<Rightarrow> string \<Rightarrow> ResPool option" where
  "lookupPool t i = find (\<lambda>p. poolID p = i) t"

definition Children :: "Tree \<Rightarrow> string \<Rightarrow> string list" where
  "Children t i = map poolID (filter (\<lambda>p. Parent (poolConfig p) = Some i) t)"

definition isLeaf :: "Tree \<Rightarrow> string \<Rightarrow> bool" where
  "isLeaf t i = (Children t i = [])"

subsection \<open>Enqueue at a pool\<close>

text \<open>
  The priority-FIFO order of a pending queue: descending priority, and among equal
  priorities the order of arrival. The priority of a gang is that of its first task.
\<close>

definition gangPriority :: "Gang \<Rightarrow> nat" where
  "gangPriority g = (case g of [] \<Rightarrow> 0 | x # _ \<Rightarrow> Priority x)"

definition enqueueFIFO :: "Gang list \<Rightarrow> Gang \<Rightarrow> Gang list" where
  "enqueueFIFO q g =
     takeWhile (\<lambda>h. gangPriority g \<le> gangPriority h) q @ [g] @
     dropWhile (\<lambda>h. gangPriority g \<le> gangPriority h) q"

text \<open>
  Modelled from the spec: \<open>ResPool.EnqueueGang\<close> is missing. Only leaf pools hold tasks
  (section 3); an enqueue at a pool that is not a leaf fails with NOT_A_LEAF, and an
  enqueue at an unknown pool or at a pool that is not a leaf is reported and changes no
  state (sections 4.1 and 7). At a leaf the gang joins the pending queue.
\<close>

definition EnqueueGang :: "Tree \<Rightarrow> string \<Rightarrow> Gang \<Rightarrow> respoolError option \<times> Tree" where
  "EnqueueGang t i g =
     (case lookupPool t i of
        None \<Rightarrow> (Some (POOL_NOT_FOUND i), t)
      | Some p \<Rightarrow>
          if \<not> isLeaf t i then (Some (NOT_A_LEAF i), t)
          else (None,
                map (\<lambda>q. if poolID q = i
                          then q\<lparr>pendingQueue := enqueueFIFO (pendingQueue q) g\<rparr>
                          else q) t))"

subsection \<open>Upsert\<close>

definition reservation :: "ResourcePoolConfig \<Rightarrow> string \<Rightarrow> rat" where
  "reservation cfg k =
     (case find (\<lambda>r. Kind r = k) (Resources cfg) of
        None \<Rightarrow> 0
      | Some r \<Rightarrow> Reservation r)"

definition childrenReservation :: "Tree \<Rightarrow> string \<Rightarrow> string \<Rightarrow> rat" where
  "childrenReservation t i k =
     sum_list (map (\<lambda>p. reservation (poolConfig p) k)
                   (filter (\<lambda>p. Parent (poolConfig p) = Some i) t))"

text \<open>
  The invariant of section 3 at the pool \<open>i\<close>: for every kind, the reservations of the
  children add up to at most the reservation of the pool.
\<close>

definition reservationsFit :: "Tree \<Rightarrow> string \<Rightarrow> bool" where
  "reservationsFit t i =
     (case lookupPool t i of
        None \<Rightarrow> True
      | Some p \<Rightarrow>
          list_all (\<lambda>k. childrenReservation t i k \<le> reservation (poolConfig p) k)
                   resourceKinds)"

definition newPool :: "string \<Rightarrow> ResourcePoolConfig \<Rightarrow> ResPool" where
  "newPool i cfg =
     \<lparr>poolID = i, poolConfig = cfg, pendingQueue = [],
      entitlement = (\<lambda>k. 0), allocation = (\<lambda>k. 0)\<rparr>"

text \<open>
  The tree with the configuration of \<open>i\<close> set to \<open>cfg\<close>: a pool that exists keeps its
  queue, entitlement and allocation; a new pool starts empty, at the end of the arena.
\<close>

definition setConfig :: "Tree \<Rightarrow> string \<Rightarrow> ResourcePoolConfig \<Rightarrow> Tree" where
  "setConfig t i cfg =
     (if lookupPool t i = None then t @ [newPool i cfg]
      else map (\<lambda>p. if poolID p = i then p\<lparr>poolConfig := cfg\<rparr> else p) t)"

text \<open>
  Modelled from the spec: \<open>tree.Upsert\<close> is missing. It validates before it commits
  (section 4.1): the scheduling policy is known, no reservation exceeds its limit, the
  parent is another pool of the tree, and with the new configuration in place the
  reservations fit at the parent and at the pool itself (sections 3 and 7). On a
  violation the tree is not changed.
\<close>

definition Upsert :: "string \<Rightarrow> ResourcePoolConfig \<Rightarrow> Tree \<Rightarrow> respoolError + Tree" where
  "Upsert i cfg t =
     (if Policy cfg \<noteq> PriorityFIFO then Inl (INVALID_CONFIG ''Invalid queue Type'')
      else if \<not> list_all (\<lambda>r. Reservation r \<le> Limit r) (Resources cfg)
      then Inl (INVALID_CONFIG ''reservation exceeds limit'')
      else (case Parent cfg of
              None \<Rightarrow> Inl (INVALID_CONFIG ''no parent'')
            | Some par \<Rightarrow>
                if par = i \<or> lookupPool t par = None
                then Inl (INVALID_CONFIG ''parent cannot be resolved'')
                else if \<not> reservationsFit (setConfig t i cfg) par \<or>
                        \<not> reservationsFit (setConfig t i cfg) i
                then Inl (INVALID_CONFIG ''reservation exceeds parent'')
                else Inr (setConfig t i cfg)))"

text \<open>The tree that a call of \<open>Upsert\<close> on \<open>t\<close> leaves.\<close>

definition treeAfter :: "respoolError + Tree \<Rightarrow> Tree \<Rightarrow> Tree" where
  "treeAfter r t = (case r of Inl err \<Rightarrow> t | Inr t' \<Rightarrow> t')"

subsection \<open>The tree of the test suite\<close>

definition cpuOnly :: "rat \<Rightarrow> rat \<Rightarrow> rat \<Rightarrow> ResourceConfig list" where
  "cpuOnly r l s = [\<lparr>Kind = ''cpu'', Reservation = r, Limit = l, Share = s\<rparr>]"

definition getResourceConfig :: "ResourceConfig list" where
  "getResourceConfig =
     [\<lparr>Kind = ''cpu'', Reservation = 100, Limit = 1000, Share = 1\<rparr>,
      \<lparr>Kind = ''memory'', Reservation = 100, Limit = 1000, Share = 1\<rparr>,
      \<lparr>Kind = ''disk'', Reservation = 100, Limit = 1000, Share = 1\<rparr>,
      \<lparr>Kind = ''gpu'', Reservation = 2, Limit = 4, Share = 1\<rparr>]"

definition testPool :: "string \<Rightarrow> string option \<Rightarrow> ResourceConfig list \<Rightarrow> ResPool" where
  "testPool i par rs =
     newPool i \<lparr>Name = i, Parent = par, Resources = rs, Policy = PriorityFIFO\<rparr>"

text \<open>
  The part of the tree of \<open>getResPools\<close> under \<open>respool1\<close> and \<open>respool22\<close>, with the
  implicit root.
\<close>

definition testTree :: Tree where
  "testTree =
     [testPool ''root'' None getResourceConfig,
      testPool ''respool1'' (Some ''root'') getResourceConfig,
      testPool ''respool2'' (Some ''root'') getResourceConfig,
      testPool ''respool11'' (Some ''respool1'') getResourceConfig,
      testPool ''respool22'' (Some ''respool2'') getResourceConfig,
      testPool ''respool23'' (Some ''respool22'') (cpuOnly 50 100 1)]"

definition taskItem1 :: RmTask where
  "taskItem1 = \<lparr>TaskName = ''job1-1'', Priority = 0, JobId = ''job1'', TaskId = ''job1-1''\<rparr>"

text \<open>The configuration of \<open>TestTree_UpsertExistingResourcePoolConfig\<close>.\<close>

definition mockResourcePoolConfig :: ResourcePoolConfig where
  "mockResourcePoolConfig =
     \<lparr>Name = ''respool22'', Parent = Some ''respool22'', Resources = cpuOnly 10 50 2,
      Policy = PriorityFIFO\<rparr>"

chapter \<open>Properties\<close>

section \<open>Validation of runtime updates\<close>

text \<open>
  When the previous id is not of the older, long format, \<open>validateMesosTaskID\<close> is the
  comparison of the two run ids, and both have to parse.
\<close>

lemma validateMesosTaskID_short:
  assumes "length prev \<le> 2 * uuidLength"
  shows "validateMesosTaskID P i prev = (\<exists>n c. P i = Inr n \<and> P prev = Inr c \<and> c \<le> n)"
  using assms by (auto simp: validateMesosTaskID_def split: sum.splits)

text \<open>Two ids of the older format pass without a look at their run ids.\<close>

lemma validateMesosTaskID_legacy:
  assumes "length i > 2 * uuidLength" and "length prev > 2 * uuidLength"
  shows "validateMesosTaskID P i prev"
  using assms by (simp add: validateMesosTaskID_def)

text \<open>
  An update that changes the mesos task id is decided by the first branch of
  \<open>validateState\<close> alone: nothing after it is looked at.
\<close>

lemma validateState_changed_id:
  assumes "GetMesosTaskId new = Some i" and "i \<noteq> GetValue (GetMesosTaskId cur)"
  shows "validateState T P cur new =
           (validateMesosTaskID P i (GetValue (GetMesosTaskId cur)) \<and>
            GetState new = INITIALIZED)"
proof -
  have "new \<noteq> None"
    using assms(1) by (cases new) (auto simp: GetMesosTaskId_def)
  then show ?thesis
    using assms unfolding validateState_def by (auto simp: GetValue_def)
qed






lemma ParseRunID_examples:
  "ParseRunID ''job-0-0'' = Inr 0"
  "ParseRunID ''job-0-1'' = Inr 1"
  "ParseRunID ''job-0-2'' = Inr 2"
  "ParseRunID legacyOld = Inr 5"
  "ParseRunID legacyNew = Inr 3"
  by (simp_all add: ParseRunID_def legacyOld_def legacyNew_def)

text \<open>
  Claim C6, as the code has it. While the current mesos task id is not of the older long
  format (more than twice the length of a UUID), an update that changes the mesos task
  id is accepted only if both run ids parse, the new run id is at least the current one,
  and the new state is INITIALIZED. And an update that leaves the mesos task id alone is
  rejected when it carries a desired mesos task id whose run id is below the run id of
  the current desired id, the latter again not of the long format.
\<close>

theorem validateState_run_id_monotone:
  "(length (GetValue (GetMesosTaskId cur)) \<le> 2 * uuidLength \<and>
    GetMesosTaskId new = Some i \<and> i \<noteq> GetValue (GetMesosTaskId cur) \<and>
    validateState T P cur new
    \<longrightarrow> (\<exists>n c. P i = Inr n \<and> P (GetValue (GetMesosTaskId cur)) = Inr c \<and> c \<le> n) \<and>
        GetState new = INITIALIZED)
   \<and>
   ((GetMesosTaskId new = None \<or>
     GetValue (GetMesosTaskId new) = GetValue (GetMesosTaskId cur)) \<and>
    GetDesiredMesosTaskId new = Some d \<and>
    length (GetValue (GetDesiredMesosTaskId cur)) \<le> 2 * uuidLength \<and>
    P d = Inr n' \<and> P (GetValue (GetDesiredMesosTaskId cur)) = Inr c' \<and> n' < c'
    \<longrightarrow> \<not> validateState T P cur new)"
proof (intro conjI impI)
  assume a: "length (GetValue (GetMesosTaskId cur)) \<le> 2 * uuidLength \<and>
    GetMesosTaskId new = Some i \<and> i \<noteq> GetValue (GetMesosTaskId cur) \<and>
    validateState T P cur new"
  then have v: "validateMesosTaskID P i (GetValue (GetMesosTaskId cur)) \<and>
                GetState new = INITIALIZED"
    using validateState_changed_id[of new i cur T P] by simp
  from v show "GetState new = INITIALIZED" by simp
  from v a show "\<exists>n c. P i = Inr n \<and> P (GetValue (GetMesosTaskId cur)) = Inr c \<and> c \<le> n"
    using validateMesosTaskID_short[of "GetValue (GetMesosTaskId cur)" P i] by simp
next
  assume b: "(GetMesosTaskId new = None \<or>
     GetValue (GetMesosTaskId new) = GetValue (GetMesosTaskId cur)) \<and>
    GetDesiredMesosTaskId new = Some d \<and>
    length (GetValue (GetDesiredMesosTaskId cur)) \<le> 2 * uuidLength \<and>
    P d = Inr n' \<and> P (GetValue (GetDesiredMesosTaskId cur)) = Inr c' \<and> n' < c'"
  then have "\<not> validateMesosTaskID P d (GetValue (GetDesiredMesosTaskId cur))"
    using validateMesosTaskID_short[of "GetValue (GetDesiredMesosTaskId cur)" P d] by auto
  with b show "\<not> validateState T P cur new"
    unfolding validateState_def by (auto simp: GetValue_def)
qed

text \<open>
  The theorem at work: from run 1 to run 2 with state INITIALIZED is accepted, and a
  desired id that goes from run 1 back to run 0 is rejected.
\<close>

theorem validateState_run_id_monotone_witness:
  "validateState IsPelotonStateTerminal ParseRunID (Some exampleRuntime)
      (Some (exampleRuntime\<lparr>State := INITIALIZED, MesosTaskId := Some ''job-0-2''\<rparr>)) \<and>
   (\<exists>n c. ParseRunID ''job-0-2'' = Inr n \<and> ParseRunID ''job-0-1'' = Inr c \<and> c \<le> n) \<and>
   \<not> validateState IsPelotonStateTerminal ParseRunID (Some exampleRuntime)
      (Some (exampleRuntime\<lparr>DesiredMesosTaskId := Some ''job-0-0''\<rparr>))"
proof -
  have v: "validateState IsPelotonStateTerminal ParseRunID (Some exampleRuntime)
      (Some (exampleRuntime\<lparr>State := INITIALIZED, MesosTaskId := Some ''job-0-2''\<rparr>))"
    by (simp add: validateState_def validateMesosTaskID_def GetMesosTaskId_def GetValue_def
        GetState_def exampleRuntime_def uuidLength_def ParseRunID_examples)
  show ?thesis
    using v
      validateState_run_id_monotone[of "Some exampleRuntime"
        "Some (exampleRuntime\<lparr>State := INITIALIZED, MesosTaskId := Some ''job-0-2''\<rparr>)"
        "''job-0-2''" IsPelotonStateTerminal ParseRunID]
      validateState_run_id_monotone[of "Some exampleRuntime"
        "Some (exampleRuntime\<lparr>DesiredMesosTaskId := Some ''job-0-0''\<rparr>)" "''job-0-2''"
        IsPelotonStateTerminal ParseRunID "''job-0-0''" 0 1]
    by (simp add: GetMesosTaskId_def GetDesiredMesosTaskId_def GetValue_def exampleRuntime_def
        uuidLength_def ParseRunID_examples)
qed

text \<open>
  The claim as the specification words it fails twice. Between two ids of the older
  format the run ids are not compared: the update from run 5 to run 3 is accepted. And
  an update that changes the mesos task id returns before the desired mesos task id is
  looked at: the desired id goes from run 1 back to run 0 and the update is accepted.
\<close>

theorem validateState_run_id_counterexample:
  "validateState IsPelotonStateTerminal ParseRunID
      (Some (exampleRuntime\<lparr>MesosTaskId := Some legacyOld\<rparr>))
      (Some (exampleRuntime\<lparr>State := INITIALIZED, MesosTaskId := Some legacyNew\<rparr>)) \<and>
   ParseRunID legacyOld = Inr 5 \<and> ParseRunID legacyNew = Inr 3 \<and> (3 :: 32 word) < 5 \<and>
   validateState IsPelotonStateTerminal ParseRunID (Some exampleRuntime)
      (Some (exampleRuntime\<lparr>State := INITIALIZED, MesosTaskId := Some ''job-0-2'',
                             DesiredMesosTaskId := Some ''job-0-0''\<rparr>)) \<and>
   DesiredMesosTaskId exampleRuntime = Some ''job-0-1'' \<and>
   ParseRunID ''job-0-1'' = Inr 1 \<and> ParseRunID ''job-0-0'' = Inr 0"
proof -
  have l: "length legacyOld = 75" "length legacyNew = 75" "legacyOld \<noteq> legacyNew"
    by (simp_all add: legacyOld_def legacyNew_def)
  have a: "validateState IsPelotonStateTerminal ParseRunID
      (Some (exampleRuntime\<lparr>MesosTaskId := Some legacyOld\<rparr>))
      (Some (exampleRuntime\<lparr>State := INITIALIZED, MesosTaskId := Some legacyNew\<rparr>))"
    using l
    by (simp add: validateState_def validateMesosTaskID_def GetMesosTaskId_def GetValue_def
        GetState_def exampleRuntime_def uuidLength_def)
  have b: "validateState IsPelotonStateTerminal ParseRunID (Some exampleRuntime)
      (Some (exampleRuntime\<lparr>State := INITIALIZED, MesosTaskId := Some ''job-0-2'',
                             DesiredMesosTaskId := Some ''job-0-0''\<rparr>))"
    by (simp add: validateState_def validateMesosTaskID_def GetMesosTaskId_def GetValue_def
        GetState_def exampleRuntime_def uuidLength_def ParseRunID_examples)
  show ?thesis
    using a b by (simp add: ParseRunID_examples exampleRuntime_def)
qed

section \<open>Patching and replacing the cached runtime\<close>

text \<open>
  \<open>GetRunTime\<close> leaves the runtime it returns in the cache and does not write to the
  store; with a runtime in the cache it changes nothing.
\<close>

lemma GetRunTime_cached:
  assumes "GetRunTime env s = (Inr cur, s1)"
  shows "runtime s1 = Some cur \<and> db s1 = db s \<and> (runtime s \<noteq> None \<longrightarrow> s1 = s)"
  using assms unfolding GetRunTime_def GetTaskRuntime_def
  by (auto split: option.splits sum.splits)

text \<open>
  A call of \<open>PatchRuntime\<close> with a diff that has no revision field, a job configuration
  that can be read, a runtime in the cache or the store, and a diff that \<open>patch\<close> can
  apply, comes to the validation of the patched runtime.
\<close>

lemma PatchRuntime_reaches_validation:
  assumes "d RevisionField = None"
      and "\<forall>err. jobConfig env \<noteq> Some (Inl err)"
      and "GetRunTime env s = (Inr cur, s1)"
      and "patch cur d = Inr new"
  shows "PatchRuntime T P patch env (Some d) s =
           (if \<not> validateState T P (Some cur) (Some new) then (None, s1)
            else (case updateRevision env s1 of
                    Inl err \<Rightarrow> (Some err, s1)
                  | Inr s2 \<Rightarrow>
                      (case UpdateTaskRuntime env new s2 of
                         Inl err \<Rightarrow> (Some err, s2\<lparr>runtime := None\<rparr>)
                       | Inr s3 \<Rightarrow>
                           (None, s3\<lparr>runtime := Some new,
                                     lastRuntimeUpdateTime := now env\<rparr>))))"
proof (cases "runtime s")
  case None
  with assms(3) obtain s' where g: "GetTaskRuntime env s = Inr (cur, s')"
    and s1: "s1 = s'\<lparr>runtime := Some cur\<rparr>"
    unfolding GetRunTime_def by (auto split: sum.splits)
  show ?thesis
    using assms(1,2,4) None g s1 unfolding PatchRuntime_def
    by (auto split: option.splits sum.splits)
next
  case (Some r)
  with assms(3) have "r = cur" "s1 = s"
    unfolding GetRunTime_def by auto
  then show ?thesis
    using assms(1,2,4) Some unfolding PatchRuntime_def
    by (auto split: option.splits sum.splits)
qed




section \<open>The revision version\<close>

lemma word_lt_succ: "(x :: 64 word) \<noteq> - 1 \<Longrightarrow> x < x + 1"
  using inc_less_eq_triv_imp linorder_not_less by blast

text \<open>
  \<open>updateRevision\<close> with a revision: the change log is bumped in place, and every
  runtime that holds its address sees the new version.
\<close>

lemma updateRevision_shared:
  assumes "runtime s = Some cur" and "Revision cur = Some a" and "heap s a = Some cl"
  shows "updateRevision env s =
           Inr (s\<lparr>heap := (heap s)(a \<mapsto> cl\<lparr>Version := Version cl + 1,
                                              UpdatedAt := now env\<rparr>)\<rparr>)"
  using assms unfolding updateRevision_def by (simp add: GetRevision_def)

text \<open>
  \<open>updateRevision\<close> without a revision: the new change log, at version 1, is attached
  to the runtime in the cache. The copy that \<open>PatchRuntime\<close> took before the call
  still has no revision.
\<close>

lemma updateRevision_nil:
  assumes "runtime s = Some cur" and "Revision cur = None"
  shows "updateRevision env s =
           Inr (s\<lparr>runtime := Some (cur\<lparr>Revision := Some (nextAddr s)\<rparr>),
                  heap := (heap s)(nextAddr s \<mapsto>
                            \<lparr>Version = 1, CreatedAt = now env, UpdatedAt = now env\<rparr>),
                  nextAddr := Suc (nextAddr s)\<rparr>)"
  using assms unfolding updateRevision_def by (simp add: GetRevision_def)

text \<open>
  A patch that passes the validation and is written to the store, for a runtime with a
  revision that \<open>patch\<close> leaves in place: the cache and the store get the patched
  runtime, with the version one higher.
\<close>

lemma PatchRuntime_applied:
  assumes "d RevisionField = None"
      and "\<forall>err. jobConfig env \<noteq> Some (Inl err)"
      and "GetRunTime env s = (Inr cur, s1)"
      and "patch cur d = Inr new"
      and "validateState T P (Some cur) (Some new)"
      and "writeErr env = None"
      and "Revision cur = Some a" and "heap s1 a = Some cl" and "Revision new = Some a"
  shows "PatchRuntime T P patch env (Some d) s =
           (None, s1\<lparr>heap := (heap s1)(a \<mapsto> cl\<lparr>Version := Version cl + 1,
                                                  UpdatedAt := now env\<rparr>),
                     db := Some (withRevision new
                             (Some (cl\<lparr>Version := Version cl + 1, UpdatedAt := now env\<rparr>))),
                     runtime := Some new,
                     lastRuntimeUpdateTime := now env\<rparr>)"
proof -
  have r: "runtime s1 = Some cur"
    using GetRunTime_cached[OF assms(3)] by simp
  have u: "updateRevision env s1 =
           Inr (s1\<lparr>heap := (heap s1)(a \<mapsto> cl\<lparr>Version := Version cl + 1,
                                                UpdatedAt := now env\<rparr>)\<rparr>)"
    using updateRevision_shared[OF r assms(7,8)] .
  show ?thesis
    using assms(1-6,9) PatchRuntime_reaches_validation[of d env s cur s1 patch new T P] u
    by (simp add: UpdateTaskRuntime_def)
qed

text \<open>
  The same patch for a runtime without a revision: it is applied, and the runtime that
  ends in the cache has no revision, so its version reads 0 as before.
\<close>

lemma PatchRuntime_applied_nil_revision:
  assumes "d RevisionField = None"
      and "\<forall>err. jobConfig env \<noteq> Some (Inl err)"
      and "GetRunTime env s = (Inr cur, s1)"
      and "patch cur d = Inr new"
      and "validateState T P (Some cur) (Some new)"
      and "writeErr env = None"
      and "Revision cur = None" and "Revision new = None"
  shows "fst (PatchRuntime T P patch env (Some d) s) = None \<and>
         runtime (snd (PatchRuntime T P patch env (Some d) s)) = Some new \<and>
         cachedVersion (snd (PatchRuntime T P patch env (Some d) s)) = 0"
proof -
  have r: "runtime s1 = Some cur"
    using GetRunTime_cached[OF assms(3)] by simp
  show ?thesis
    using assms(1-6,8) PatchRuntime_reaches_validation[of d env s cur s1 patch new T P]
      updateRevision_nil[OF r assms(7), of env]
    by (simp add: UpdateTaskRuntime_def cachedVersion_def GetVersion_def GetRevision_def)
qed

text \<open>
  Claim C10, as the code has it. Take a patch that is applied: the call comes to the
  validation, the validation accepts, the write to the store succeeds. If the runtime
  has a revision, which \<open>patch\<close> leaves in place, and its version is below the largest
  64-bit value, then the call returns no error and the version of the cached runtime is
  one higher than before, hence greater. \<open>ReplaceRuntime\<close> rejects a nil runtime and
  a runtime with a nil revision with an invalid-argument error and changes nothing.
  Without \<open>forceReplace\<close> it returns no error; it fills an empty cache; and it
  replaces a cached runtime exactly when the version of the incoming runtime is
  strictly greater, so that the cached version does not decrease.
\<close>

theorem revision_version_monotone:
  "(d RevisionField = None \<and> (\<forall>err. jobConfig env \<noteq> Some (Inl err)) \<and>
    GetRunTime env s = (Inr cur, s1) \<and> patch cur d = Inr new \<and>
    validateState T P (Some cur) (Some new) \<and> writeErr env = None \<and>
    Revision cur = Some a \<and> heap s1 a = Some cl \<and> Revision new = Some a \<and>
    Version cl \<noteq> - 1
    \<longrightarrow> fst (PatchRuntime T P patch env (Some d) s) = None \<and>
        cachedVersion (snd (PatchRuntime T P patch env (Some d) s)) = cachedVersion s1 + 1 \<and>
        cachedVersion s1 < cachedVersion (snd (PatchRuntime T P patch env (Some d) s)))
   \<and>
   (rt = None \<or> GetRevision rt = None
    \<longrightarrow> (\<exists>msg. ReplaceRuntime rt force s = (Some (InvalidArgument msg), s)))
   \<and>
   (rt \<noteq> None \<and> GetRevision rt \<noteq> None \<and> runtime s = None
    \<longrightarrow> ReplaceRuntime rt False s = (None, s\<lparr>runtime := rt\<rparr>))
   \<and>
   (rt \<noteq> None \<and> GetRevision rt \<noteq> None \<and> runtime s \<noteq> None
    \<longrightarrow> ReplaceRuntime rt False s =
          (None, if cachedVersion s < GetVersion (heap s) (GetRevision rt)
                 then s\<lparr>runtime := rt\<rparr> else s) \<and>
        cachedVersion s \<le> cachedVersion (snd (ReplaceRuntime rt False s)))"
proof (intro conjI impI)
  assume a: "d RevisionField = None \<and> (\<forall>err. jobConfig env \<noteq> Some (Inl err)) \<and>
    GetRunTime env s = (Inr cur, s1) \<and> patch cur d = Inr new \<and>
    validateState T P (Some cur) (Some new) \<and> writeErr env = None \<and>
    Revision cur = Some a \<and> heap s1 a = Some cl \<and> Revision new = Some a \<and>
    Version cl \<noteq> - 1"
  then have r: "runtime s1 = Some cur"
    using GetRunTime_cached[of env s cur s1] by simp
  have before: "cachedVersion s1 = Version cl"
    using a r by (simp add: cachedVersion_def GetVersion_def GetRevision_def)
  have p: "PatchRuntime T P patch env (Some d) s =
           (None, s1\<lparr>heap := (heap s1)(a \<mapsto> cl\<lparr>Version := Version cl + 1,
                                                  UpdatedAt := now env\<rparr>),
                     db := Some (withRevision new
                             (Some (cl\<lparr>Version := Version cl + 1, UpdatedAt := now env\<rparr>))),
                     runtime := Some new,
                     lastRuntimeUpdateTime := now env\<rparr>)"
    using a PatchRuntime_applied[of d env s cur s1 patch new T P a cl] by simp
  show "fst (PatchRuntime T P patch env (Some d) s) = None"
    using p by simp
  show after: "cachedVersion (snd (PatchRuntime T P patch env (Some d) s)) =
               cachedVersion s1 + 1"
    using p a before by (simp add: cachedVersion_def GetVersion_def GetRevision_def)
  show "cachedVersion s1 < cachedVersion (snd (PatchRuntime T P patch env (Some d) s))"
    using after before a word_lt_succ[of "Version cl"] by simp
next
  assume "rt = None \<or> GetRevision rt = None"
  then show "\<exists>msg. ReplaceRuntime rt force s = (Some (InvalidArgument msg), s)"
    unfolding ReplaceRuntime_def by auto
next
  assume "rt \<noteq> None \<and> GetRevision rt \<noteq> None \<and> runtime s = None"
  then show "ReplaceRuntime rt False s = (None, s\<lparr>runtime := rt\<rparr>)"
    unfolding ReplaceRuntime_def by simp
next
  assume b: "rt \<noteq> None \<and> GetRevision rt \<noteq> None \<and> runtime s \<noteq> None"
  then show r: "ReplaceRuntime rt False s =
          (None, if cachedVersion s < GetVersion (heap s) (GetRevision rt)
                 then s\<lparr>runtime := rt\<rparr> else s)"
    unfolding ReplaceRuntime_def cachedVersion_def by auto
  show "cachedVersion s \<le> cachedVersion (snd (ReplaceRuntime rt False s))"
    unfolding r by (auto simp: cachedVersion_def)
qed

text \<open>
  The theorem at work. A running task at version 7 is patched to SUCCEEDED and ends at
  version 8. A nil runtime is rejected. A runtime at version 3 does not replace the
  cached one at version 7, but does replace one at version 2, and any runtime with a
  revision fills an empty cache.
\<close>

theorem revision_version_monotone_witness:
  "fst (PatchRuntime IsPelotonStateTerminal ParseRunID patchState exampleEnv
          (Some [''State'' \<mapsto> SUCCEEDED]) (exampleSystem RUNNING 7)) = None \<and>
   cachedVersion (exampleSystem RUNNING 7) = 7 \<and>
   cachedVersion (snd (PatchRuntime IsPelotonStateTerminal ParseRunID patchState exampleEnv
          (Some [''State'' \<mapsto> SUCCEEDED]) (exampleSystem RUNNING 7))) = 8 \<and>
   (\<exists>msg. ReplaceRuntime None False (exampleSystem RUNNING 7) =
           (Some (InvalidArgument msg), exampleSystem RUNNING 7)) \<and>
   ReplaceRuntime (Some (exampleRuntime\<lparr>Revision := Some 1\<rparr>)) False
       (exampleSystem RUNNING 7) =
     (None, exampleSystem RUNNING 7) \<and>
   ReplaceRuntime (Some (exampleRuntime\<lparr>Revision := Some 1\<rparr>)) False
       (exampleSystem RUNNING 2) =
     (None, (exampleSystem RUNNING 2)\<lparr>runtime :=
               Some (exampleRuntime\<lparr>Revision := Some 1\<rparr>)\<rparr>) \<and>
   ReplaceRuntime (Some exampleRuntime) False ((exampleSystem RUNNING 7)\<lparr>runtime := None\<rparr>) =
     (None, (exampleSystem RUNNING 7)\<lparr>runtime := Some exampleRuntime\<rparr>)"
proof -
  let ?d = "[''State'' \<mapsto> SUCCEEDED]"
  let ?s = "exampleSystem RUNNING 7"
  let ?cur = "exampleRuntime\<lparr>State := RUNNING\<rparr>"
  let ?new = "exampleRuntime\<lparr>State := SUCCEEDED\<rparr>"
  let ?cl = "\<lparr>Version = 7, CreatedAt = 0, UpdatedAt = 0\<rparr> :: ChangeLog"
  let ?rt = "Some (exampleRuntime\<lparr>Revision := Some 1\<rparr>)"
  have v: "validateState IsPelotonStateTerminal ParseRunID (Some ?cur) (Some ?new)"
    by (simp add: validateState_def validateMesosTaskID_def GetMesosTaskId_def GetValue_def
        GetDesiredMesosTaskId_def GetState_def exampleRuntime_def uuidLength_def
        ParseRunID_examples IsPelotonStateTerminal_def IsMesosOwnedState_def
        mesosOwnedTaskStates_def)
  have h: "?d RevisionField = None \<and> (\<forall>err. jobConfig exampleEnv \<noteq> Some (Inl err)) \<and>
      GetRunTime exampleEnv ?s = (Inr ?cur, ?s) \<and> patchState ?cur ?d = Inr ?new \<and>
      writeErr exampleEnv = None \<and> Revision ?cur = Some 0 \<and> heap ?s 0 = Some ?cl \<and>
      Revision ?new = Some 0 \<and> Version ?cl \<noteq> - 1"
    by (simp add: RevisionField_def exampleEnv_def GetRunTime_def exampleSystem_def
        patchState_def exampleRuntime_def)
  have before: "cachedVersion ?s = 7"
    by (simp add: exampleSystem_def exampleRuntime_def cachedVersion_def GetVersion_def
        GetRevision_def)
  have lower: "cachedVersion (exampleSystem RUNNING 2) = 2"
    by (simp add: exampleSystem_def exampleRuntime_def cachedVersion_def GetVersion_def
        GetRevision_def)
  have g7: "GetVersion (heap ?s) (GetRevision ?rt) = 3"
    by (simp add: exampleSystem_def exampleRuntime_def GetVersion_def GetRevision_def)
  have g2: "GetVersion (heap (exampleSystem RUNNING 2)) (GetRevision ?rt) = 3"
    by (simp add: exampleSystem_def exampleRuntime_def GetVersion_def GetRevision_def)
  have n: "?rt \<noteq> None \<and> GetRevision ?rt \<noteq> None \<and> runtime ?s \<noteq> None \<and>
      runtime (exampleSystem RUNNING 2) \<noteq> None \<and> GetRevision (Some exampleRuntime) \<noteq> None"
    by (simp add: exampleSystem_def exampleRuntime_def GetRevision_def)
  have p: "fst (PatchRuntime IsPelotonStateTerminal ParseRunID patchState exampleEnv
                  (Some ?d) ?s) = None \<and>
           cachedVersion (snd (PatchRuntime IsPelotonStateTerminal ParseRunID patchState
                  exampleEnv (Some ?d) ?s)) = 8"
    using v h before
      revision_version_monotone[of ?d exampleEnv ?s ?cur ?s patchState ?new
        IsPelotonStateTerminal ParseRunID 0 ?cl None False]
    by simp
  have r0: "\<exists>msg. ReplaceRuntime None False ?s = (Some (InvalidArgument msg), ?s)"
    using revision_version_monotone[of ?d exampleEnv ?s ?cur ?s patchState ?new
        IsPelotonStateTerminal ParseRunID 0 ?cl None False]
    by blast
  have r1: "ReplaceRuntime ?rt False ?s = (None, ?s)"
    using n before g7
      revision_version_monotone[of ?d exampleEnv ?s ?cur ?s patchState ?new
        IsPelotonStateTerminal ParseRunID 0 ?cl ?rt False]
    by simp
  have r2: "ReplaceRuntime ?rt False (exampleSystem RUNNING 2) =
        (None, (exampleSystem RUNNING 2)\<lparr>runtime := ?rt\<rparr>)"
    using n lower g2
      revision_version_monotone[of ?d exampleEnv "exampleSystem RUNNING 2" ?cur ?s patchState
        ?new IsPelotonStateTerminal ParseRunID 0 ?cl ?rt False]
    by simp
  have r3: "ReplaceRuntime (Some exampleRuntime) False (?s\<lparr>runtime := None\<rparr>) =
        (None, ?s\<lparr>runtime := Some exampleRuntime\<rparr>)"
    using n
      revision_version_monotone[of ?d exampleEnv "?s\<lparr>runtime := None\<rparr>" ?cur ?s patchState
        ?new IsPelotonStateTerminal ParseRunID 0 ?cl "Some exampleRuntime" False]
    by simp
  show ?thesis
    using p before r0 r1 r2 r3 by simp
qed

text \<open>
  The claim as the specification words it fails twice. At the largest 64-bit version
  the increment wraps around: the patch is applied and the version falls to 0. And for
  a runtime without a revision the patch is applied, the state changes, and the version
  reads 0 before and after.
\<close>

theorem revision_version_counterexample:
  "fst (PatchRuntime IsPelotonStateTerminal ParseRunID patchState exampleEnv
          (Some [''State'' \<mapsto> SUCCEEDED]) (exampleSystem RUNNING (- 1))) = None \<and>
   cachedVersion (exampleSystem RUNNING (- 1)) = 18446744073709551615 \<and>
   cachedVersion (snd (PatchRuntime IsPelotonStateTerminal ParseRunID patchState exampleEnv
          (Some [''State'' \<mapsto> SUCCEEDED]) (exampleSystem RUNNING (- 1)))) = 0 \<and>
   fst (PatchRuntime IsPelotonStateTerminal ParseRunID patchState exampleEnv
          (Some [''State'' \<mapsto> SUCCEEDED])
          ((exampleSystem RUNNING 7)\<lparr>runtime := Some (exampleRuntime\<lparr>Revision := None\<rparr>)\<rparr>))
     = None \<and>
   GetState (runtime (snd (PatchRuntime IsPelotonStateTerminal ParseRunID patchState exampleEnv
          (Some [''State'' \<mapsto> SUCCEEDED])
          ((exampleSystem RUNNING 7)\<lparr>runtime := Some (exampleRuntime\<lparr>Revision := None\<rparr>)\<rparr>))))
     = SUCCEEDED \<and>
   cachedVersion
     ((exampleSystem RUNNING 7)\<lparr>runtime := Some (exampleRuntime\<lparr>Revision := None\<rparr>)\<rparr>) = 0 \<and>
   cachedVersion (snd (PatchRuntime IsPelotonStateTerminal ParseRunID patchState exampleEnv
          (Some [''State'' \<mapsto> SUCCEEDED])
          ((exampleSystem RUNNING 7)\<lparr>runtime := Some (exampleRuntime\<lparr>Revision := None\<rparr>)\<rparr>)))
     = 0"
  by (simp add: PatchRuntime_def RevisionField_def exampleEnv_def exampleSystem_def
        patchState_def exampleRuntime_def cachedVersion_def GetVersion_def GetRevision_def
        validateState_def validateMesosTaskID_def GetMesosTaskId_def GetValue_def
        GetDesiredMesosTaskId_def GetState_def uuidLength_def ParseRunID_examples
        IsPelotonStateTerminal_def IsMesosOwnedState_def mesosOwnedTaskStates_def
        updateRevision_def UpdateTaskRuntime_def)

section \<open>Resource pool tree\<close>

lemma find_append_if:
  "find P (xs @ ys) = (case find P xs of None \<Rightarrow> find P ys | Some x \<Rightarrow> Some x)"
  by (induction xs) auto

lemma find_map_poolID:
  "find (\<lambda>p. poolID p = j)
     (map (\<lambda>p. if poolID p = i then p\<lparr>poolConfig := cfg\<rparr> else p) t) =
   map_option (\<lambda>p. if poolID p = i then p\<lparr>poolConfig := cfg\<rparr> else p)
     (find (\<lambda>p. poolID p = j) t)"
  by (induction t) auto

text \<open>Setting the configuration of a pool keeps every other pool and leaves the pool in the tree.\<close>

lemma lookupPool_setConfig_other:
  assumes "j \<noteq> i"
  shows "(lookupPool (setConfig t i cfg) j = None) = (lookupPool t j = None)"
proof (cases "lookupPool t i = None")
  case True
  then show ?thesis
    using assms
    by (simp add: lookupPool_def setConfig_def find_append_if newPool_def split: option.splits)
next
  case False
  then show ?thesis
    by (auto simp: lookupPool_def setConfig_def find_map_poolID)
qed

lemma lookupPool_setConfig_self: "lookupPool (setConfig t i cfg) i \<noteq> None"
proof (cases "lookupPool t i = None")
  case True
  then show ?thesis
    by (simp add: lookupPool_def setConfig_def find_append_if newPool_def split: option.splits)
next
  case False
  then show ?thesis
    by (auto simp: lookupPool_def setConfig_def find_map_poolID)
qed

lemma setConfig_idem: "setConfig (setConfig t i cfg) i cfg = setConfig t i cfg"
proof (cases "lookupPool t i = None")
  case True
  then have n: "\<forall>p \<in> set t. poolID p \<noteq> i"
    by (auto simp: lookupPool_def find_None_iff)
  have m: "map (\<lambda>p. if poolID p = i then p\<lparr>poolConfig := cfg\<rparr> else p) t = t"
    using n by (induction t) auto
  have "setConfig (t @ [newPool i cfg]) i cfg = t @ [newPool i cfg]"
    using lookupPool_setConfig_self[of t i cfg] True m
    by (auto simp: setConfig_def newPool_def)
  then show ?thesis
    using True by (simp add: setConfig_def)
next
  case False
  have e: "setConfig t i cfg =
           map (\<lambda>p. if poolID p = i then p\<lparr>poolConfig := cfg\<rparr> else p) t"
    using False by (simp add: setConfig_def)
  have "setConfig (setConfig t i cfg) i cfg =
        map (\<lambda>p. if poolID p = i then p\<lparr>poolConfig := cfg\<rparr> else p) (setConfig t i cfg)"
    using lookupPool_setConfig_self[of t i cfg] by (simp add: setConfig_def)
  also have "\<dots> = setConfig t i cfg"
    unfolding e by (induction t) auto
  finally show ?thesis .
qed

text \<open>An \<open>Upsert\<close> that succeeds can be repeated, with the same tree as result.\<close>

lemma Upsert_again:
  assumes "Upsert i cfg t = Inr t'"
  shows "Upsert i cfg t' = Inr t'"
proof -
  have p: "Policy cfg = PriorityFIFO"
    using assms unfolding Upsert_def by (cases "Policy cfg = PriorityFIFO") simp_all
  have l: "list_all (\<lambda>r. Reservation r \<le> Limit r) (Resources cfg)"
    using assms p unfolding Upsert_def
    by (cases "list_all (\<lambda>r. Reservation r \<le> Limit r) (Resources cfg)") simp_all
  obtain par where par: "Parent cfg = Some par"
    using assms p l unfolding Upsert_def by (cases "Parent cfg") simp_all
  have r: "par \<noteq> i \<and> lookupPool t par \<noteq> None"
    using assms p l par unfolding Upsert_def
    by (cases "par = i \<or> lookupPool t par = None") simp_all
  have f: "reservationsFit (setConfig t i cfg) par \<and> reservationsFit (setConfig t i cfg) i"
    using assms p l par r unfolding Upsert_def
    by (cases "reservationsFit (setConfig t i cfg) par \<and>
               reservationsFit (setConfig t i cfg) i") auto
  have t': "t' = setConfig t i cfg"
    using assms p l par r f unfolding Upsert_def by auto
  have r': "lookupPool t' par \<noteq> None"
    using r t' lookupPool_setConfig_other[of par i t cfg] by simp
  have "Upsert i cfg t' = Inr (setConfig t' i cfg)"
    using p l par r r' f t' unfolding Upsert_def by (simp add: setConfig_idem)
  then show ?thesis
    using t' by (simp add: setConfig_idem)
qed

lemma testTree_lookups:
  "lookupPool testTree ''respool1'' =
     Some (testPool ''respool1'' (Some ''root'') getResourceConfig)"
  "lookupPool testTree ''respool22'' =
     Some (testPool ''respool22'' (Some ''respool2'') getResourceConfig)"
  "lookupPool testTree ''respool23'' =
     Some (testPool ''respool23'' (Some ''respool22'') (cpuOnly 50 100 1))"
  by (simp_all add: lookupPool_def testTree_def testPool_def newPool_def)

lemma testTree_respool1_not_leaf: "\<not> isLeaf testTree ''respool1''"
  by (simp add: isLeaf_def Children_def testTree_def testPool_def newPool_def)

lemma testTree_upserted:
  "setConfig testTree ''respool23'' mockResourcePoolConfig =
     [testPool ''root'' None getResourceConfig,
      testPool ''respool1'' (Some ''root'') getResourceConfig,
      testPool ''respool2'' (Some ''root'') getResourceConfig,
      testPool ''respool11'' (Some ''respool1'') getResourceConfig,
      testPool ''respool22'' (Some ''respool2'') getResourceConfig,
      newPool ''respool23'' mockResourcePoolConfig]"
  by (simp add: setConfig_def testTree_lookups) (simp add: testTree_def testPool_def newPool_def)

lemma testTree_upsert_fits:
  "reservationsFit (setConfig testTree ''respool23'' mockResourcePoolConfig) ''respool22''"
  "reservationsFit (setConfig testTree ''respool23'' mockResourcePoolConfig) ''respool23''"
  unfolding testTree_upserted
  by (simp_all add: reservationsFit_def lookupPool_def testPool_def newPool_def
      childrenReservation_def reservation_def resourceKinds_def mockResourcePoolConfig_def
      cpuOnly_def getResourceConfig_def)

lemma testTree_upsert:
  "Upsert ''respool23'' mockResourcePoolConfig testTree =
     Inr (setConfig testTree ''respool23'' mockResourcePoolConfig)"
  using testTree_upsert_fits testTree_lookups(2)
  by (simp add: Upsert_def) (simp add: mockResourcePoolConfig_def cpuOnly_def)

text \<open>
  Claim C2. For a pool of the tree that has children, \<open>EnqueueGang\<close> of any gang
  returns the error NOT_A_LEAF with the identifier of the pool, and the tree with all
  its queues is the one before the call.
\<close>

theorem EnqueueGang_non_leaf:
  assumes "lookupPool t i = Some p" and "\<not> isLeaf t i"
  shows "EnqueueGang t i g = (Some (NOT_A_LEAF i), t)"
  using assms by (simp add: EnqueueGang_def)

text \<open>\<open>TestPendingQueueError\<close>: a task is sent to \<open>respool1\<close>, which has the child \<open>respool11\<close>.\<close>

theorem EnqueueGang_non_leaf_witness:
  "EnqueueGang testTree ''respool1'' [taskItem1] = (Some (NOT_A_LEAF ''respool1''), testTree)"
  using EnqueueGang_non_leaf[OF testTree_lookups(1) testTree_respool1_not_leaf]
  by simp

text \<open>
  Claim C9. For every pool identifier and configuration, the tree after two calls of
  \<open>Upsert\<close> in a row is the tree after one call; and if the first call succeeds, so
  does the second.
\<close>

theorem Upsert_idempotent:
  "treeAfter (Upsert i cfg (treeAfter (Upsert i cfg t) t)) (treeAfter (Upsert i cfg t) t) =
     treeAfter (Upsert i cfg t) t \<and>
   (Upsert i cfg t = Inr t' \<longrightarrow> Upsert i cfg t' = Inr t')"
proof (cases "Upsert i cfg t")
  case (Inl err)
  then show ?thesis by (simp add: treeAfter_def)
next
  case (Inr u)
  then show ?thesis
    using Upsert_again[of i cfg t u] by (auto simp: treeAfter_def)
qed

text \<open>
  \<open>TestTree_UpsertExistingResourcePoolConfig\<close>: the new configuration of \<open>respool23\<close> is
  accepted, and accepted again with the same tree.
\<close>

theorem Upsert_idempotent_witness:
  "Upsert ''respool23'' mockResourcePoolConfig testTree =
     Inr (setConfig testTree ''respool23'' mockResourcePoolConfig) \<and>
   Upsert ''respool23'' mockResourcePoolConfig
       (setConfig testTree ''respool23'' mockResourcePoolConfig) =
     Inr (setConfig testTree ''respool23'' mockResourcePoolConfig) \<and>
   setConfig testTree ''respool23'' mockResourcePoolConfig \<noteq> testTree"
proof -
  have d: "setConfig testTree ''respool23'' mockResourcePoolConfig \<noteq> testTree"
    unfolding testTree_upserted
    by (simp add: testTree_def testPool_def newPool_def mockResourcePoolConfig_def)
  show ?thesis
    using testTree_upsert d
      Upsert_idempotent[of "''respool23''" mockResourcePoolConfig testTree
        "setConfig testTree ''respool23'' mockResourcePoolConfig"]
    by simp
qed

end
